theory Spec2Isabelle
  imports Main "HOL-Library.Sublist"
begin

section \<open>The payment lifecycle controller of \<^verbatim>\<open>src/pay/components/PayProvider.tsx\<close>\<close>

text \<open>
  \<^verbatim>\<open>PayProvider\<close> is a React component. Its state is four \<^verbatim>\<open>useState\<close> cells (the
  lifecycle status, \<^verbatim>\<open>chargeId\<close>, \<^verbatim>\<open>transactionId\<close>, \<^verbatim>\<open>errorMessage\<close>); its behaviour
  is the asynchronous callback \<^verbatim>\<open>handleSubmit\<close> and two \<^verbatim>\<open>useEffect\<close> handlers. The
  state is a record that every handler takes and returns; every call of a collaborator
  (wallet connection, hydration, chain switch, batch submission, \<^verbatim>\<open>window.open\<close>) is
  appended to a trace; a rejected promise is a value \<open>Threw e\<close>.
\<close>

subsection \<open>Lifecycle status\<close>

text \<open>\<^verbatim>\<open>PAY_LIFECYCLESTATUS\<close> and \<^verbatim>\<open>PayErrorCode\<close>, as \<^verbatim>\<open>handleSubmit\<close> uses them.\<close>

datatype PAY_LIFECYCLESTATUS = INIT | PENDING | SUCCESS | ERROR

datatype PayErrorCode = INSUFFICIENT_BALANCE | USER_REJECTED_ERROR | UNEXPECTED_ERROR

text \<open>
  The \<^verbatim>\<open>statusData\<close> object: empty (\<^verbatim>\<open>{}\<close>), the three fields written on success
  (\<^verbatim>\<open>transactionReceipts\<close>, \<^verbatim>\<open>chargeId\<close>, \<^verbatim>\<open>receiptUrl\<close>) or the three written on error
  (\<^verbatim>\<open>code\<close>, \<^verbatim>\<open>error\<close>, \<^verbatim>\<open>message\<close>).
\<close>

datatype 'r status_data =
    NoData
  | SuccessData "'r list" string string
  | ErrorData PayErrorCode string string

record 'r lifecycle_status =
  statusName :: PAY_LIFECYCLESTATUS
  statusData :: "'r status_data"

text \<open>\<^verbatim>\<open>lifecycleStatus.statusData?.code\<close>: undefined unless the data is an error's.\<close>

fun code_of :: "'r status_data \<Rightarrow> PayErrorCode option" where
  "code_of (ErrorData c e m) = Some c"
| "code_of _ = None"

subsection \<open>Controller state\<close>

record 'r controller =
  lifecycleStatus :: "'r lifecycle_status"
  chargeId :: string
  transactionId :: string
  errorMessage :: string

text \<open>The initial values of the \<^verbatim>\<open>useState\<close> and \<^verbatim>\<open>useLifecycleStatus\<close> calls (lines 54-63).\<close>

definition initial_controller :: "'r controller" where
  "initial_controller =
     \<lparr>lifecycleStatus = \<lparr>statusName = INIT, statusData = NoData\<rparr>,
      chargeId = [], transactionId = [], errorMessage = []\<rparr>"

text \<open>
  Modelled from the spec: \<^verbatim>\<open>useLifecycleStatus\<close> (\<^verbatim>\<open>../hooks/useLifecycleStatus\<close>) is not
  among the source files. The spec calls \<^verbatim>\<open>updateLifecycleStatus\<close> the controller's
  update entry point, through which every status transition is made: the status given
  becomes the current one.
\<close>

definition updateLifecycleStatus :: "'r lifecycle_status \<Rightarrow> 'r controller \<Rightarrow> 'r controller" where
  "updateLifecycleStatus s c = c\<lparr>lifecycleStatus := s\<rparr>"

definition setChargeId :: "string \<Rightarrow> 'r controller \<Rightarrow> 'r controller" where
  "setChargeId v c = c\<lparr>chargeId := v\<rparr>"

definition setTransactionId :: "string \<Rightarrow> 'r controller \<Rightarrow> 'r controller" where
  "setTransactionId v c = c\<lparr>transactionId := v\<rparr>"

definition setErrorMessage :: "string \<Rightarrow> 'r controller \<Rightarrow> 'r controller" where
  "setErrorMessage v c = c\<lparr>errorMessage := v\<rparr>"

subsection \<open>Constants and collaborators\<close>

text \<open>
  The message constants of \<^verbatim>\<open>../constants\<close> are not among the source files; they are
  parameters. \<^verbatim>\<open>USER_REJECTED_ERROR\<close> the message is suffixed, the name being the error
  code's too. \<^verbatim>\<open>PAY_INSUFFICIENT_BALANCE_ERROR_MESSAGE\<close> is the template that takes the
  price.
\<close>

record 'p constants =
  GENERIC_ERROR_MESSAGE :: string
  NO_CONNECTED_ADDRESS_ERROR :: string
  NO_CONTRACTS_ERROR :: string
  USER_REJECTED_ERROR_message :: string
  PAY_INSUFFICIENT_BALANCE_ERROR :: string
  PAY_INSUFFICIENT_BALANCE_ERROR_MESSAGE :: "'p \<Rightarrow> string"

text \<open>\<^verbatim>\<open>base.id\<close> of \<^verbatim>\<open>viem/chains\<close>.\<close>

definition base_id :: nat where
  "base_id = 8453"

text \<open>
  The \<^verbatim>\<open>message\<close> property of a thrown value, as line 245 uses it: undefined or null
  (\<^verbatim>\<open>?.\<close> stops there), a string, or any other value. Of another value \<open>r\<close> records what
  calling its \<^verbatim>\<open>includes\<close> gives: \<open>None\<close> when \<^verbatim>\<open>includes\<close> is not a function of it (a number,
  a plain object), which is a \<^verbatim>\<open>TypeError\<close>, and \<open>Some b\<close> when the call returns a value
  that counts as \<open>b\<close> (an array).
\<close>

datatype js_message = NoMessage | StringMessage string | OtherMessage "bool option"

text \<open>
  A thrown value that is not undefined or null, by what the \<^verbatim>\<open>catch\<close> block reads of it:
  its \<^verbatim>\<open>message\<close>, the verdict of \<^verbatim>\<open>isUserRejectedRequestError\<close> on it (the classifier of
  \<^verbatim>\<open>../../transaction/utils\<close>, not among the source files) and what \<^verbatim>\<open>JSON.stringify\<close>
  makes of it: \<open>Some\<close> text, or \<open>None\<close> when \<^verbatim>\<open>JSON.stringify\<close> throws a \<^verbatim>\<open>TypeError\<close> (the
  value holds a BigInt or a cycle). A function or a symbol, for which \<^verbatim>\<open>JSON.stringify\<close>
  returns undefined against its declared type, is not represented.
\<close>

record js_object =
  message :: js_message
  isUserRejectedRequestError :: bool
  JSON_stringify :: "string option"

text \<open>What a promise rejects with: undefined or null, or another value.\<close>

datatype js_error = Nullish | Thrown js_object

text \<open>The \<^verbatim>\<open>error\<close> a hydration result carries, read as \<^verbatim>\<open>(error as Error).name\<close> and \<^verbatim>\<open>.message\<close>.\<close>

record fetch_error =
  error_name :: string
  error_message :: string

text \<open>
  The result of \<^verbatim>\<open>fetchContracts\<close> (lines 185-191). \<^verbatim>\<open>contracts\<close> may be absent.
  \<^verbatim>\<open>priceInUSDC\<close> is tested for truth only (line 212): \<open>None\<close> stands for every value
  JavaScript takes for false, \<open>Some p\<close> for a price that is present.
\<close>

record ('c, 'p) hydration =
  contracts :: "'c list option"
  hydratedChargeId :: string
  insufficientBalance :: bool
  priceInUSDC :: "'p option"
  error :: "fetch_error option"

text \<open>The result of \<^verbatim>\<open>connectAsync\<close>: \<^verbatim>\<open>{ accounts, chainId }\<close>.\<close>

record connect_result =
  accounts :: "string list"
  connect_chainId :: nat

text \<open>
  What one call of \<^verbatim>\<open>handleSubmit\<close> sees of the world: the readings of \<^verbatim>\<open>useAccount\<close>
  and \<^verbatim>\<open>useIsWalletACoinbaseSmartWallet\<close> its closure holds, and how each collaborator
  answers: \<open>Inl e\<close> when its promise rejects with \<open>e\<close>, \<open>Inr v\<close> when it resolves to \<open>v\<close>.
\<close>

record ('c, 'p) env =
  address :: "string option"
  chainId :: "nat option"
  isConnected :: bool
  isSmartWallet :: bool
  connectAsync :: "js_error + connect_result"
  fetchContracts :: "string \<Rightarrow> js_error + ('c, 'p) hydration"
  switchChainAsync :: "nat \<Rightarrow> js_error + unit"
  writeContractsAsync :: "'c list \<Rightarrow> js_error + string"

text \<open>The calls \<^verbatim>\<open>handleSubmit\<close> makes, in the order it makes them.\<close>

datatype 'c call =
    ConnectAsync
  | FetchContracts string
  | SwitchChainAsync nat
  | WriteContractsAsync "'c list"
  | WindowOpen string

text \<open>
  How the \<^verbatim>\<open>try\<close> block ends: it runs to its end or to a \<^verbatim>\<open>return\<close>, or a collaborator's
  promise rejects with \<open>e\<close>, which the \<^verbatim>\<open>catch\<close> block receives.
\<close>

datatype try_completion = Completed | Threw js_error

type_synonym ('r, 'c) try_outcome = "try_completion \<times> 'r controller \<times> 'c call list"

text \<open>
  How \<^verbatim>\<open>handleSubmit\<close> ends: its promise resolves, or the \<^verbatim>\<open>catch\<close> block itself throws a
  \<^verbatim>\<open>TypeError\<close>, which nothing catches, and the promise rejects with it.
\<close>

datatype completion = Returned | ThrewTypeError

type_synonym ('r, 'c) outcome = "completion \<times> 'r controller \<times> 'c call list"

subsection \<open>Strings\<close>

text \<open>\<^verbatim>\<open>s.includes(p)\<close>: \<open>p\<close> occurs in \<open>s\<close> as a contiguous run.\<close>

fun includes_str :: "string \<Rightarrow> string \<Rightarrow> bool" where
  "includes_str [] p = (p = [])"
| "includes_str (x # xs) p = (prefix p (x # xs) \<or> includes_str xs p)"

definition receipt_url :: "string \<Rightarrow> string" where
  "receipt_url cid = ''https://commerce.coinbase.com/pay/'' @ cid @ ''/receipt''"

definition funding_url :: string where
  "funding_url = ''https://keys.coinbase.com/fund''"

subsection \<open>\<^verbatim>\<open>handleSubmit\<close>\<close>

text \<open>
  Lines 156-166: the address and chain of the closure, or those \<^verbatim>\<open>connectAsync\<close> returns
  when the wallet is not connected or is not a smart wallet. \<^verbatim>\<open>accounts[0]\<close> of an empty
  array is undefined.
\<close>

definition resolve_account ::
  "('c, 'p) env \<Rightarrow> (js_error + string option \<times> nat option) \<times> 'c call list" where
  "resolve_account env =
     (if \<not> isConnected env \<or> \<not> isSmartWallet env then
        (case connectAsync env of
           Inl e \<Rightarrow> (Inl e, [ConnectAsync])
         | Inr r \<Rightarrow>
             (Inr (case accounts r of [] \<Rightarrow> None | a # _ \<Rightarrow> Some a, Some (connect_chainId r)),
              [ConnectAsync]))
      else (Inr (address env, chainId env), []))"

text \<open>
  Lines 211-242: the balance check, the contracts check and the submission.
  \<^verbatim>\<open>!contracts || contracts.length === 0\<close> holds of an absent list and of the empty one:
  the last branch.
\<close>

definition check_and_write ::
  "'p constants \<Rightarrow> ('c, 'p) env \<Rightarrow> ('c, 'p) hydration \<Rightarrow> 'r controller \<Rightarrow> 'c call list
     \<Rightarrow> ('r, 'c) try_outcome" where
  "check_and_write K env h c tr =
     (case (insufficientBalance h, priceInUSDC h) of
        (True, Some p) \<Rightarrow>
          (Completed,
           updateLifecycleStatus
             \<lparr>statusName = ERROR,
              statusData = ErrorData INSUFFICIENT_BALANCE (PAY_INSUFFICIENT_BALANCE_ERROR K)
                (PAY_INSUFFICIENT_BALANCE_ERROR_MESSAGE K p)\<rparr>
             (setErrorMessage (PAY_INSUFFICIENT_BALANCE_ERROR_MESSAGE K p) c),
           tr)
      | _ \<Rightarrow>
          (case contracts h of
             Some (x # xs) \<Rightarrow>
               (case writeContractsAsync env (x # xs) of
                  Inl e \<Rightarrow> (Threw e, c, tr @ [WriteContractsAsync (x # xs)])
                | Inr tid \<Rightarrow>
                    (Completed, setTransactionId tid c, tr @ [WriteContractsAsync (x # xs)]))
           | _ \<Rightarrow>
               (Completed,
                updateLifecycleStatus
                  \<lparr>statusName = ERROR,
                   statusData = ErrorData UNEXPECTED_ERROR (NO_CONTRACTS_ERROR K)
                     (NO_CONTRACTS_ERROR K)\<rparr>
                  (setErrorMessage (GENERIC_ERROR_MESSAGE K) c),
                tr)))"

text \<open>
  Lines 192-209: the hydration result's error, the charge identifier, the chain switch.
  \<^verbatim>\<open>setTransactionId\<close> above is the \<^verbatim>\<open>onSuccess\<close> of \<^verbatim>\<open>useWriteContracts\<close> (lines 73-77).
\<close>

definition after_fetch ::
  "'p constants \<Rightarrow> ('c, 'p) env \<Rightarrow> nat option \<Rightarrow> ('c, 'p) hydration \<Rightarrow> 'r controller
     \<Rightarrow> 'c call list \<Rightarrow> ('r, 'c) try_outcome" where
  "after_fetch K env connectedChainId h c tr =
     (case error h of
        Some er \<Rightarrow>
          (Completed,
           updateLifecycleStatus
             \<lparr>statusName = ERROR,
              statusData = ErrorData UNEXPECTED_ERROR (error_name er) (error_message er)\<rparr>
             (setErrorMessage (GENERIC_ERROR_MESSAGE K) c),
           tr)
      | None \<Rightarrow>
          (let c1 = setChargeId (hydratedChargeId h) c in
           if connectedChainId \<noteq> Some base_id then
             (case switchChainAsync env base_id of
                Inl e \<Rightarrow> (Threw e, c1, tr @ [SwitchChainAsync base_id])
              | Inr _ \<Rightarrow> check_and_write K env h c1 (tr @ [SwitchChainAsync base_id]))
           else check_and_write K env h c1 tr))"

text \<open>
  Lines 132-242, the \<^verbatim>\<open>try\<close> block. \<^verbatim>\<open>!connectedAddress\<close> holds of an absent address
  and of the empty one: the last branch.
\<close>

definition try_block ::
  "'p constants \<Rightarrow> ('c, 'p) env \<Rightarrow> 'r controller \<Rightarrow> ('r, 'c) try_outcome" where
  "try_block K env c =
     (if statusName (lifecycleStatus c) = SUCCESS then
        (Completed, c, [WindowOpen (receipt_url (chargeId c))])
      else if statusName (lifecycleStatus c) = ERROR
          \<and> code_of (statusData (lifecycleStatus c)) = Some INSUFFICIENT_BALANCE then
        (Completed, c, [WindowOpen funding_url])
      else
        (case resolve_account env of
           (Inl e, tr) \<Rightarrow> (Threw e, c, tr)
         | (Inr (connectedAddress, connectedChainId), tr) \<Rightarrow>
             (case connectedAddress of
                Some (x # xs) \<Rightarrow>
                  (case fetchContracts env (x # xs) of
                     Inl e \<Rightarrow> (Threw e, c, tr @ [FetchContracts (x # xs)])
                   | Inr h \<Rightarrow>
                       after_fetch K env connectedChainId h c (tr @ [FetchContracts (x # xs)]))
              | _ \<Rightarrow>
                  (Completed,
                   updateLifecycleStatus
                     \<lparr>statusName = ERROR,
                      statusData = ErrorData UNEXPECTED_ERROR (NO_CONNECTED_ADDRESS_ERROR K)
                        (NO_CONNECTED_ADDRESS_ERROR K)\<rparr>
                     (setErrorMessage (GENERIC_ERROR_MESSAGE K) c),
                   tr))))"

text \<open>
  Lines 244-246 on a value that is not undefined or null:
  \<^verbatim>\<open>error.message?.includes('User denied connection request') || isUserRejectedRequestError(error)\<close>.
  \<open>None\<close> when evaluating it throws a \<^verbatim>\<open>TypeError\<close>.
\<close>

definition isUserRejectedError :: "js_object \<Rightarrow> bool option" where
  "isUserRejectedError obj =
     (case message obj of
        NoMessage \<Rightarrow> Some (isUserRejectedRequestError obj)
      | StringMessage m \<Rightarrow>
          Some (includes_str m ''User denied connection request''
                \<or> isUserRejectedRequestError obj)
      | OtherMessage None \<Rightarrow> None
      | OtherMessage (Some b) \<Rightarrow> Some (b \<or> isUserRejectedRequestError obj))"

text \<open>
  Lines 243-263, the \<^verbatim>\<open>catch\<close> block. Nothing in it is protected. Reading \<^verbatim>\<open>message\<close> of
  undefined or null throws, and so does calling an \<^verbatim>\<open>includes\<close> that is not a function:
  both before any state is written. \<^verbatim>\<open>JSON.stringify(error)\<close> is evaluated as an argument
  of \<^verbatim>\<open>updateLifecycleStatus\<close> (line 259), after \<^verbatim>\<open>setErrorMessage\<close> (line 254): when it
  throws, the message is stored and the status is not.
\<close>

definition catch_block ::
  "'p constants \<Rightarrow> js_error \<Rightarrow> 'r controller \<Rightarrow> 'c call list \<Rightarrow> ('r, 'c) outcome" where
  "catch_block K e c tr =
     (case e of
        Nullish \<Rightarrow> (ThrewTypeError, c, tr)
      | Thrown obj \<Rightarrow>
          (case isUserRejectedError obj of
             None \<Rightarrow> (ThrewTypeError, c, tr)
           | Some rej \<Rightarrow>
               (let errorCode = (if rej then USER_REJECTED_ERROR else UNEXPECTED_ERROR);
                    msg = (if rej then USER_REJECTED_ERROR_message K
                           else GENERIC_ERROR_MESSAGE K);
                    c1 = setErrorMessage msg c
                in (case JSON_stringify obj of
                      None \<Rightarrow> (ThrewTypeError, c1, tr)
                    | Some json \<Rightarrow>
                        (Returned,
                         updateLifecycleStatus
                           \<lparr>statusName = ERROR, statusData = ErrorData errorCode json msg\<rparr>
                           c1,
                         tr)))))"

text \<open>Lines 131-263: the \<^verbatim>\<open>try\<close> block, and the \<^verbatim>\<open>catch\<close> block on what it throws.\<close>

definition handleSubmit ::
  "'p constants \<Rightarrow> ('c, 'p) env \<Rightarrow> 'r controller \<Rightarrow> ('r, 'c) outcome" where
  "handleSubmit K env c =
     (case try_block K env c of
        (Threw e, c', tr) \<Rightarrow> catch_block K e c' tr
      | (Completed, c', tr) \<Rightarrow> (Returned, c', tr))"

subsection \<open>The effects\<close>

text \<open>The \<^verbatim>\<open>status\<close> of \<^verbatim>\<open>useWriteContracts\<close>.\<close>

datatype write_status = Idle | Pending | Success | Error

text \<open>Lines 105-113: the status becomes \<^verbatim>\<open>PENDING\<close> when the submission is pending.\<close>

definition pending_effect :: "write_status \<Rightarrow> 'r controller \<Rightarrow> 'r controller" where
  "pending_effect status c =
     (if status = Pending then
        updateLifecycleStatus \<lparr>statusName = PENDING, statusData = NoData\<rparr> c
      else c)"

text \<open>Lines 115-128: the status becomes \<^verbatim>\<open>SUCCESS\<close> when there is a receipt.\<close>

definition receipt_effect :: "'r option \<Rightarrow> 'r controller \<Rightarrow> 'r controller" where
  "receipt_effect receipt c =
     (case receipt of
        None \<Rightarrow> c
      | Some r \<Rightarrow>
          updateLifecycleStatus
            \<lparr>statusName = SUCCESS,
             statusData = SuccessData [r] (chargeId c) (receipt_url (chargeId c))\<rparr>
            c)"

subsection \<open>Reading an outcome\<close>

definition state_of :: "'x \<times> 'r controller \<times> 'c call list \<Rightarrow> 'r controller" where
  "state_of out = fst (snd out)"

definition calls_of :: "'x \<times> 'r controller \<times> 'c call list \<Rightarrow> 'c call list" where
  "calls_of out = snd (snd out)"

text \<open>
  A call of \<^verbatim>\<open>handleSubmit\<close> begins a fresh attempt when neither of its two early returns
  (lines 134-154) applies.
\<close>

definition fresh_attempt :: "'r controller \<Rightarrow> bool" where
  "fresh_attempt c =
     (statusName (lifecycleStatus c) \<noteq> SUCCESS
      \<and> \<not> (statusName (lifecycleStatus c) = ERROR
           \<and> code_of (statusData (lifecycleStatus c)) = Some INSUFFICIENT_BALANCE))"



subsection \<open>Concrete inputs\<close>

text \<open>
  Values for the message constants, a wallet on Base that is connected, and the answers
  of the collaborators on the successful path; the variants below change one answer each.
\<close>

definition example_constants :: "string constants" where
  "example_constants =
     \<lparr>GENERIC_ERROR_MESSAGE = ''Something went wrong. Please try again.'',
      NO_CONNECTED_ADDRESS_ERROR = ''No connected address'',
      NO_CONTRACTS_ERROR = ''Contracts are not available'',
      USER_REJECTED_ERROR_message = ''Request denied.'',
      PAY_INSUFFICIENT_BALANCE_ERROR = ''User has insufficient balance'',
      PAY_INSUFFICIENT_BALANCE_ERROR_MESSAGE =
        (\<lambda>p. ''You need at least '' @ p @ '' USDC to continue with payment'')\<rparr>"

definition example_hydration :: "(string, string) hydration" where
  "example_hydration =
     \<lparr>contracts = Some [''approve'', ''transferTokenPreApproved''],
      hydratedChargeId = ''charge-1'',
      insufficientBalance = False,
      priceInUSDC = Some ''10'',
      error = None\<rparr>"

definition failed_hydration :: "(string, string) hydration" where
  "failed_hydration =
     \<lparr>contracts = None,
      hydratedChargeId = ''charge-2'',
      insufficientBalance = False,
      priceInUSDC = None,
      error = Some \<lparr>error_name = ''Error'', error_message = ''Failed to fetch''\<rparr>\<rparr>"

definition rejected :: js_error where
  "rejected =
     Thrown \<lparr>message = StringMessage ''User rejected the request.'',
       isUserRejectedRequestError = True,
       JSON_stringify = Some ''{code:4001}''\<rparr>"

definition denied :: js_error where
  "denied =
     Thrown \<lparr>message = StringMessage ''Error: User denied connection request'',
       isUserRejectedRequestError = False,
       JSON_stringify = Some ''{}''\<rparr>"

definition timed_out :: js_error where
  "timed_out =
     Thrown \<lparr>message = StringMessage ''The request timed out.'',
       isUserRejectedRequestError = False,
       JSON_stringify = Some ''{name:TimeoutError}''\<rparr>"

text \<open>
  Thrown values the \<^verbatim>\<open>catch\<close> block fails on: one whose \<^verbatim>\<open>message\<close> is the number 4001,
  and an error that carries a BigInt amount, which \<^verbatim>\<open>JSON.stringify\<close> refuses.
\<close>

definition numbered :: js_error where
  "numbered =
     Thrown \<lparr>message = OtherMessage None,
       isUserRejectedRequestError = False,
       JSON_stringify = Some ''{message:4001}''\<rparr>"

definition with_bigint :: js_error where
  "with_bigint =
     Thrown \<lparr>message = StringMessage ''Execution reverted.'',
       isUserRejectedRequestError = False,
       JSON_stringify = None\<rparr>"

definition example_env :: "(string, string) env" where
  "example_env =
     \<lparr>address = Some ''0xabc'',
      chainId = Some 8453,
      isConnected = True,
      isSmartWallet = True,
      connectAsync = Inr \<lparr>accounts = [''0xabc''], connect_chainId = 8453\<rparr>,
      fetchContracts = (\<lambda>a. Inr example_hydration),
      switchChainAsync = (\<lambda>n. Inr ()),
      writeContractsAsync = (\<lambda>cs. Inr ''tx-1'')\<rparr>"

text \<open>The same wallet when hydration answers \<open>h\<close>.\<close>

definition hydrating :: "(string, string) hydration \<Rightarrow> (string, string) env" where
  "hydrating h = example_env\<lparr>fetchContracts := (\<lambda>a. Inr h)\<rparr>"

text \<open>The wallet on another chain (1, not Base), the user declining the switch.\<close>

definition switch_declined :: "(string, string) env \<Rightarrow> (string, string) env" where
  "switch_declined env = env\<lparr>chainId := Some 1, switchChainAsync := (\<lambda>n. Inl rejected)\<rparr>"

text \<open>Hydration answers: a balance too low, the same with no price, an empty call list.\<close>

definition low_balance_hydration :: "(string, string) hydration" where
  "low_balance_hydration = example_hydration\<lparr>insufficientBalance := True\<rparr>"

definition unpriced_hydration :: "(string, string) hydration" where
  "unpriced_hydration = example_hydration\<lparr>insufficientBalance := True, priceInUSDC := None\<rparr>"

definition empty_hydration :: "(string, string) hydration" where
  "empty_hydration = example_hydration\<lparr>contracts := Some []\<rparr>"

section \<open>Properties\<close>

subsection \<open>Auxiliary facts\<close>

lemmas handler_defs = handleSubmit_def try_block_def after_fetch_def check_and_write_def
  catch_block_def resolve_account_def updateLifecycleStatus_def setChargeId_def
  setErrorMessage_def setTransactionId_def isUserRejectedError_def pending_effect_def
  receipt_effect_def receipt_url_def funding_url_def fresh_attempt_def Let_def

lemmas example_defs = example_constants_def example_env_def example_hydration_def
  failed_hydration_def low_balance_hydration_def unpriced_hydration_def empty_hydration_def
  hydrating_def switch_declined_def initial_controller_def denied_def rejected_def
  timed_out_def numbered_def with_bigint_def base_id_def state_of_def calls_of_def


lemma resolve_account_calls:
  "resolve_account env = (r, tr) \<Longrightarrow> tr = [] \<or> tr = [ConnectAsync]"
  by (auto simp: resolve_account_def split: if_splits sum.splits)


text \<open>A fresh attempt whose connection step yields a non-empty address reaches hydration.\<close>

lemma try_block_reaches_fetch:
  assumes "fresh_attempt c"
    and "resolve_account env = (Inr (Some a, chain), tr0)"
    and "a \<noteq> []"
    and "fetchContracts env a = Inr h"
  shows "try_block K env c = after_fetch K env chain h c (tr0 @ [FetchContracts a])"
  using assms by (cases a) (auto simp: try_block_def fresh_attempt_def)

text \<open>With no hydration error and the chain right or switched, the checks are reached.\<close>

lemma after_fetch_no_error:
  assumes "error h = None"
    and "chain = Some base_id \<or> switchChainAsync env base_id = Inr ()"
  shows "after_fetch K env chain h c tr =
           check_and_write K env h (c\<lparr>chargeId := hydratedChargeId h\<rparr>)
             (tr @ (if chain = Some base_id then [] else [SwitchChainAsync base_id]))"
  using assms by (auto simp: after_fetch_def setChargeId_def Let_def split: sum.splits)

lemma try_block_reaches_checks:
  assumes "fresh_attempt c"
    and "resolve_account env = (Inr (Some a, chain), tr0)"
    and "a \<noteq> []"
    and "fetchContracts env a = Inr h"
    and "error h = None"
    and "chain = Some base_id \<or> switchChainAsync env base_id = Inr ()"
  shows "try_block K env c =
           check_and_write K env h (c\<lparr>chargeId := hydratedChargeId h\<rparr>)
             (tr0 @ [FetchContracts a]
                @ (if chain = Some base_id then [] else [SwitchChainAsync base_id]))"
proof -
  have "try_block K env c = after_fetch K env chain h c (tr0 @ [FetchContracts a])"
    using assms(1-4) by (rule try_block_reaches_fetch)
  also have "\<dots> = check_and_write K env h (c\<lparr>chargeId := hydratedChargeId h\<rparr>)
      ((tr0 @ [FetchContracts a])
         @ (if chain = Some base_id then [] else [SwitchChainAsync base_id]))"
    using assms(5,6) by (rule after_fetch_no_error)
  finally show ?thesis by (simp only: append_assoc)
qed

lemma submit_at_funding:
  assumes "statusName (lifecycleStatus c) = ERROR"
    and "code_of (statusData (lifecycleStatus c)) = Some INSUFFICIENT_BALANCE"
  shows "handleSubmit K env c = (Returned, c, [WindowOpen funding_url])"
  using assms by (simp add: handleSubmit_def try_block_def)




lemma catch_block_code:
  assumes "\<not> (statusName (lifecycleStatus c) = ERROR
      \<and> code_of (statusData (lifecycleStatus c)) = Some INSUFFICIENT_BALANCE)"
  shows "\<not> (statusName (lifecycleStatus (state_of (catch_block K e c tr))) = ERROR
      \<and> code_of (statusData (lifecycleStatus (state_of (catch_block K e c tr))))
          = Some INSUFFICIENT_BALANCE)"
  using assms
  by (simp add: catch_block_def updateLifecycleStatus_def setErrorMessage_def state_of_def
      Let_def split: js_error.splits option.splits)

lemma catch_block_keeps:
  "chargeId (state_of (catch_block K e c tr)) = chargeId c
   \<and> transactionId (state_of (catch_block K e c tr)) = transactionId c
   \<and> calls_of (catch_block K e c tr) = tr"
  by (simp add: catch_block_def updateLifecycleStatus_def setErrorMessage_def state_of_def
      calls_of_def Let_def split: js_error.splits option.splits)






text \<open>What \<^verbatim>\<open>handleSubmit\<close> takes over from its \<^verbatim>\<open>try\<close> block as it is.\<close>

lemma handleSubmit_keeps:
  "chargeId (state_of (handleSubmit K env c)) = chargeId (state_of (try_block K env c))
   \<and> transactionId (state_of (handleSubmit K env c))
       = transactionId (state_of (try_block K env c))
   \<and> calls_of (handleSubmit K env c) = calls_of (try_block K env c)"
proof (cases "try_block K env c")
  case (fields r c' tr)
  show ?thesis
  proof (cases r)
    case Completed
    with fields show ?thesis by (simp add: handleSubmit_def state_of_def calls_of_def)
  next
    case (Threw e)
    with fields show ?thesis
      using catch_block_keeps[of K e c' tr]
      by (simp add: handleSubmit_def state_of_def calls_of_def)
  qed
qed

lemma handleSubmit_Completed:
  "try_block K env c = (Completed, c', tr) \<Longrightarrow> handleSubmit K env c = (Returned, c', tr)"
  by (simp add: handleSubmit_def)




subsection \<open>The charge identifier\<close>

text \<open>
  C1, as amended. In a fresh attempt that reaches hydration, the charge identifier that
  hydration reports is stored in \<^verbatim>\<open>chargeId\<close> exactly when hydration reports no error,
  and then whatever the chain switch, the balance check, the contracts check and the
  submission do afterwards. When hydration reports an error the attempt ends in
  \<^verbatim>\<open>ERROR\<close> with code \<^verbatim>\<open>UNEXPECTED_ERROR\<close>, the error's name and message, and \<^verbatim>\<open>chargeId\<close>
  keeps the value it had: line 202 returns before line 204 stores.
\<close>

theorem charge_id_stored_unless_error:
  assumes "fresh_attempt c"
    and "resolve_account env = (Inr (Some a, chain), tr0)"
    and "a \<noteq> []"
    and "fetchContracts env a = Inr h"
  shows "chargeId (state_of (handleSubmit K env c))
           = (if error h = None then hydratedChargeId h else chargeId c)
         \<and> (\<forall>er. error h = Some er \<longrightarrow>
              handleSubmit K env c =
                (Returned,
                 c\<lparr>errorMessage := GENERIC_ERROR_MESSAGE K,
                   lifecycleStatus :=
                     \<lparr>statusName = ERROR,
                      statusData =
                        ErrorData UNEXPECTED_ERROR (error_name er) (error_message er)\<rparr>\<rparr>,
                 tr0 @ [FetchContracts a]))"
proof -
  have tb: "try_block K env c = after_fetch K env chain h c (tr0 @ [FetchContracts a])"
    using assms by (rule try_block_reaches_fetch)
  have cw: "chargeId (fst (snd (check_and_write K env h c1 tr))) = chargeId c1" for c1 tr
    by (simp add: check_and_write_def updateLifecycleStatus_def
        setErrorMessage_def setTransactionId_def
        split: option.splits sum.splits bool.splits list.splits)
  have stored: "chargeId (state_of (try_block K env c))
      = (if error h = None then hydratedChargeId h else chargeId c)"
    unfolding tb
    by (simp add: after_fetch_def state_of_def updateLifecycleStatus_def setChargeId_def
        setErrorMessage_def Let_def cw split: option.splits sum.splits)
  have failed: "handleSubmit K env c =
                (Returned,
                 c\<lparr>errorMessage := GENERIC_ERROR_MESSAGE K,
                   lifecycleStatus :=
                     \<lparr>statusName = ERROR,
                      statusData =
                        ErrorData UNEXPECTED_ERROR (error_name er) (error_message er)\<rparr>\<rparr>,
                 tr0 @ [FetchContracts a])" if "error h = Some er" for er
    using that
    by (intro handleSubmit_Completed)
      (simp add: tb after_fetch_def updateLifecycleStatus_def setErrorMessage_def)
  from stored failed show ?thesis
    by (simp add: handleSubmit_keeps)
qed

text \<open>
  The theorem at two inputs: hydration answering without an error (the identifier is
  stored), and with one (the stored identifier stays empty).
\<close>

theorem charge_id_stored_unless_error_witness:
  "fresh_attempt (initial_controller :: string controller)
   \<and> resolve_account example_env = (Inr (Some ''0xabc'', Some 8453), [])
   \<and> fetchContracts example_env ''0xabc'' = Inr example_hydration
   \<and> error example_hydration = None
   \<and> chargeId (state_of (handleSubmit example_constants example_env
        (initial_controller :: string controller))) = ''charge-1''
   \<and> fetchContracts (hydrating failed_hydration) ''0xabc'' = Inr failed_hydration
   \<and> error failed_hydration = Some \<lparr>error_name = ''Error'', error_message = ''Failed to fetch''\<rparr>
   \<and> chargeId (state_of (handleSubmit example_constants (hydrating failed_hydration)
        (initial_controller :: string controller))) = []"
  using
    charge_id_stored_unless_error[where c = "initial_controller :: string controller"
      and env = example_env and a = "''0xabc''" and chain = "Some 8453" and ?tr0.0 = "[]"
      and h = example_hydration and K = example_constants]
    charge_id_stored_unless_error[where c = "initial_controller :: string controller"
      and env = "hydrating failed_hydration" and a = "''0xabc''" and chain = "Some 8453"
      and ?tr0.0 = "[]" and h = failed_hydration and K = example_constants]
  by (simp add: fresh_attempt_def resolve_account_def example_defs)

text \<open>
  The claim as stated fails: hydration reports the charge identifier \<^verbatim>\<open>charge-2\<close> together
  with an error; the attempt ends in \<^verbatim>\<open>ERROR\<close> / \<^verbatim>\<open>UNEXPECTED_ERROR\<close> and \<^verbatim>\<open>chargeId\<close> is
  still empty.
\<close>

theorem charge_id_not_stored_on_error:
  "fetchContracts (hydrating failed_hydration) ''0xabc'' = Inr failed_hydration
   \<and> hydratedChargeId failed_hydration = ''charge-2''
   \<and> handleSubmit example_constants (hydrating failed_hydration)
        (initial_controller :: string controller)
      = (Returned,
         \<lparr>lifecycleStatus =
            \<lparr>statusName = ERROR,
             statusData = ErrorData UNEXPECTED_ERROR ''Error'' ''Failed to fetch''\<rparr>,
          chargeId = [],
          transactionId = [],
          errorMessage = ''Something went wrong. Please try again.''\<rparr>,
         [FetchContracts ''0xabc''])
   \<and> chargeId (state_of (handleSubmit example_constants (hydrating failed_hydration)
        (initial_controller :: string controller))) \<noteq> hydratedChargeId failed_hydration"
  by (simp add: handler_defs example_defs)

subsection \<open>Insufficient balance\<close>

text \<open>
  C2, as amended. In a fresh attempt that reaches hydration, when hydration reports no
  error, \<^verbatim>\<open>insufficientBalance\<close> and a price that is present, and the chain switch, where
  the connected chain is not Base, completes: the attempt ends in \<^verbatim>\<open>ERROR\<close> with code
  \<^verbatim>\<open>INSUFFICIENT_BALANCE\<close> and the message template applied to the price, and the
  batch-submission service is not called. Every \<^verbatim>\<open>handleSubmit\<close> in a state
  \<^verbatim>\<open>ERROR\<close> / \<^verbatim>\<open>INSUFFICIENT_BALANCE\<close> only opens the funding page: the state is unchanged and
  no collaborator is called.
\<close>

theorem insufficient_balance_error:
  fixes K :: "'p constants" and env env' :: "('c, 'p) env" and c c' :: "'r controller"
  assumes "fresh_attempt c"
    and "resolve_account env = (Inr (Some a, chain), tr0)"
    and "a \<noteq> []"
    and "fetchContracts env a = Inr h"
    and "error h = None"
    and "chain = Some base_id \<or> switchChainAsync env base_id = Inr ()"
    and "insufficientBalance h"
    and "priceInUSDC h = Some p"
  shows "handleSubmit K env c =
           (Returned,
            c\<lparr>chargeId := hydratedChargeId h,
              errorMessage := PAY_INSUFFICIENT_BALANCE_ERROR_MESSAGE K p,
              lifecycleStatus :=
                \<lparr>statusName = ERROR,
                 statusData = ErrorData INSUFFICIENT_BALANCE (PAY_INSUFFICIENT_BALANCE_ERROR K)
                   (PAY_INSUFFICIENT_BALANCE_ERROR_MESSAGE K p)\<rparr>\<rparr>,
            tr0 @ [FetchContracts a]
              @ (if chain = Some base_id then [] else [SwitchChainAsync base_id]))
         \<and> (\<forall>cs. WriteContractsAsync cs \<notin> set (calls_of (handleSubmit K env c)))
         \<and> (statusName (lifecycleStatus c') = ERROR
              \<and> code_of (statusData (lifecycleStatus c')) = Some INSUFFICIENT_BALANCE
            \<longrightarrow> handleSubmit K env' c'
                  = (Returned, c', [WindowOpen ''https://keys.coinbase.com/fund'']))"
proof -
  have tb: "try_block K env c =
      check_and_write K env h (c\<lparr>chargeId := hydratedChargeId h\<rparr>)
        (tr0 @ [FetchContracts a]
           @ (if chain = Some base_id then [] else [SwitchChainAsync base_id]))"
    using assms(1-6) by (rule try_block_reaches_checks)
  have run: "handleSubmit K env c =
           (Returned,
            c\<lparr>chargeId := hydratedChargeId h,
              errorMessage := PAY_INSUFFICIENT_BALANCE_ERROR_MESSAGE K p,
              lifecycleStatus :=
                \<lparr>statusName = ERROR,
                 statusData = ErrorData INSUFFICIENT_BALANCE (PAY_INSUFFICIENT_BALANCE_ERROR K)
                   (PAY_INSUFFICIENT_BALANCE_ERROR_MESSAGE K p)\<rparr>\<rparr>,
            tr0 @ [FetchContracts a]
              @ (if chain = Some base_id then [] else [SwitchChainAsync base_id]))"
    unfolding handleSubmit_def tb using assms(7,8)
    by (simp add: check_and_write_def updateLifecycleStatus_def setErrorMessage_def)
  have tr0: "tr0 = [] \<or> tr0 = [ConnectAsync]"
    using assms(2) by (rule resolve_account_calls)
  have nowrite: "\<forall>cs. WriteContractsAsync cs \<notin> set (calls_of (handleSubmit K env c))"
    unfolding run calls_of_def using tr0 by auto
  have again: "statusName (lifecycleStatus c') = ERROR
              \<and> code_of (statusData (lifecycleStatus c')) = Some INSUFFICIENT_BALANCE
            \<longrightarrow> handleSubmit K env' c'
                  = (Returned, c', [WindowOpen ''https://keys.coinbase.com/fund''])"
    by (simp add: submit_at_funding funding_url_def)
  from run nowrite again show ?thesis by blast
qed

text \<open>
  The theorem at hydration reporting a balance too low for a price of 10: the first call
  ends in \<^verbatim>\<open>ERROR\<close> / \<^verbatim>\<open>INSUFFICIENT_BALANCE\<close>, a second call on that state, whatever the
  collaborators would answer, opens the funding page only.
\<close>

theorem insufficient_balance_error_witness:
  "fresh_attempt (initial_controller :: string controller)
   \<and> resolve_account (hydrating low_balance_hydration) = (Inr (Some ''0xabc'', Some base_id), [])
   \<and> fetchContracts (hydrating low_balance_hydration) ''0xabc'' = Inr low_balance_hydration
   \<and> error low_balance_hydration = None
   \<and> insufficientBalance low_balance_hydration
   \<and> priceInUSDC low_balance_hydration = Some ''10''
   \<and> handleSubmit example_constants (hydrating low_balance_hydration)
        (initial_controller :: string controller)
      = (Returned,
         \<lparr>lifecycleStatus =
            \<lparr>statusName = ERROR,
             statusData = ErrorData INSUFFICIENT_BALANCE ''User has insufficient balance''
               ''You need at least 10 USDC to continue with payment''\<rparr>,
          chargeId = ''charge-1'',
          transactionId = [],
          errorMessage = ''You need at least 10 USDC to continue with payment''\<rparr>,
         [FetchContracts ''0xabc''])
   \<and> handleSubmit example_constants (switch_declined example_env)
        (state_of (handleSubmit example_constants (hydrating low_balance_hydration)
           (initial_controller :: string controller)))
      = (Returned,
         state_of (handleSubmit example_constants (hydrating low_balance_hydration)
           (initial_controller :: string controller)),
         [WindowOpen ''https://keys.coinbase.com/fund''])"
  using
    insufficient_balance_error[where c = "initial_controller :: string controller"
      and env = "hydrating low_balance_hydration" and a = "''0xabc''"
      and chain = "Some base_id" and ?tr0.0 = "[]" and h = low_balance_hydration
      and p = "''10''" and K = example_constants
      and c' = "state_of (handleSubmit example_constants (hydrating low_balance_hydration)
           (initial_controller :: string controller))"
      and env' = "switch_declined example_env"]
  by (simp add: handler_defs example_defs)

text \<open>
  The claim as stated fails: hydration reports a balance too low and a price of 10, the
  wallet is on chain 1, and the user declines the chain switch, which comes before the
  balance check (lines 206-209). The attempt ends in \<^verbatim>\<open>ERROR\<close> with code
  \<^verbatim>\<open>USER_REJECTED_ERROR\<close>, not \<^verbatim>\<open>INSUFFICIENT_BALANCE\<close>. Likewise when hydration reports
  an error beside the balance and the price: the code is \<^verbatim>\<open>UNEXPECTED_ERROR\<close>.
\<close>

theorem insufficient_balance_not_reached:
  "fetchContracts (switch_declined (hydrating low_balance_hydration)) ''0xabc''
     = Inr low_balance_hydration
   \<and> insufficientBalance low_balance_hydration
   \<and> priceInUSDC low_balance_hydration = Some ''10''
   \<and> handleSubmit example_constants (switch_declined (hydrating low_balance_hydration))
        (initial_controller :: string controller)
      = (Returned,
         \<lparr>lifecycleStatus =
            \<lparr>statusName = ERROR,
             statusData = ErrorData USER_REJECTED_ERROR ''{code:4001}'' ''Request denied.''\<rparr>,
          chargeId = ''charge-1'',
          transactionId = [],
          errorMessage = ''Request denied.''\<rparr>,
         [FetchContracts ''0xabc'', SwitchChainAsync 8453])
   \<and> insufficientBalance (low_balance_hydration\<lparr>error := error failed_hydration\<rparr>)
   \<and> priceInUSDC (low_balance_hydration\<lparr>error := error failed_hydration\<rparr>) = Some ''10''
   \<and> lifecycleStatus (state_of
        (handleSubmit example_constants
           (hydrating (low_balance_hydration\<lparr>error := error failed_hydration\<rparr>))
           (initial_controller :: string controller)))
      = \<lparr>statusName = ERROR,
         statusData = ErrorData UNEXPECTED_ERROR ''Error'' ''Failed to fetch''\<rparr>"
  by (simp add: handler_defs example_defs)

subsection \<open>Submitting after success\<close>

text \<open>
  C3. \<^verbatim>\<open>handleSubmit\<close> in a state whose status is \<^verbatim>\<open>SUCCESS\<close> returns the state as it
  was (status, \<^verbatim>\<open>chargeId\<close>, \<^verbatim>\<open>transactionId\<close>, \<^verbatim>\<open>errorMessage\<close>), and the only call it makes
  is \<^verbatim>\<open>window.open\<close> on the receipt URL of the stored charge identifier: no connection,
  hydration, chain-switch or submission call.
\<close>

theorem submit_in_success:
  assumes "statusName (lifecycleStatus c) = SUCCESS"
  shows "handleSubmit K env c =
           (Returned, c,
            [WindowOpen (''https://commerce.coinbase.com/pay/'' @ chargeId c @ ''/receipt'')])"
  using assms by (simp add: handleSubmit_def try_block_def receipt_url_def)

text \<open>
  The theorem at the state a successful submission and its receipt lead to, with
  collaborators that would all answer.
\<close>

theorem submit_in_success_witness:
  "statusName (lifecycleStatus
     (receipt_effect (Some ''receipt-1'')
        (state_of (handleSubmit example_constants example_env initial_controller)))) = SUCCESS
   \<and> handleSubmit example_constants example_env
        (receipt_effect (Some ''receipt-1'')
           (state_of (handleSubmit example_constants example_env initial_controller)))
      = (Returned,
         \<lparr>lifecycleStatus =
            \<lparr>statusName = SUCCESS,
             statusData = SuccessData [''receipt-1''] ''charge-1''
               ''https://commerce.coinbase.com/pay/charge-1/receipt''\<rparr>,
          chargeId = ''charge-1'',
          transactionId = ''tx-1'',
          errorMessage = []\<rparr>,
         [WindowOpen ''https://commerce.coinbase.com/pay/charge-1/receipt''])"
  using
    submit_in_success[where K = example_constants and env = example_env
      and c = "receipt_effect (Some ''receipt-1'')
           (state_of (handleSubmit example_constants example_env initial_controller))"]
  by (simp add: handler_defs example_defs)

subsection \<open>No contracts\<close>

text \<open>
  C4, as amended. In a fresh attempt that reaches hydration, when hydration returns an
  empty or absent contracts list, the batch-submission service is not called, whatever
  else happens. When, moreover, hydration reports no error, the chain switch (where the
  connected chain is not Base) completes, and the balance check does not fire
  (\<^verbatim>\<open>insufficientBalance\<close> with a price present), the attempt ends in \<^verbatim>\<open>ERROR\<close> with code
  \<^verbatim>\<open>UNEXPECTED_ERROR\<close> and the fixed \<^verbatim>\<open>NO_CONTRACTS_ERROR\<close> message.
\<close>

theorem no_contracts_error:
  assumes "fresh_attempt c"
    and "resolve_account env = (Inr (Some a, chain), tr0)"
    and "a \<noteq> []"
    and "fetchContracts env a = Inr h"
    and "contracts h = None \<or> contracts h = Some []"
  shows "(\<forall>cs. WriteContractsAsync cs \<notin> set (calls_of (handleSubmit K env c)))
         \<and> (error h = None
              \<and> (chain = Some base_id \<or> switchChainAsync env base_id = Inr ())
              \<and> \<not> (insufficientBalance h \<and> priceInUSDC h \<noteq> None)
            \<longrightarrow> handleSubmit K env c =
                  (Returned,
                   c\<lparr>chargeId := hydratedChargeId h,
                     errorMessage := GENERIC_ERROR_MESSAGE K,
                     lifecycleStatus :=
                       \<lparr>statusName = ERROR,
                        statusData = ErrorData UNEXPECTED_ERROR (NO_CONTRACTS_ERROR K)
                          (NO_CONTRACTS_ERROR K)\<rparr>\<rparr>,
                   tr0 @ [FetchContracts a]
                     @ (if chain = Some base_id then [] else [SwitchChainAsync base_id])))"
proof -
  have tb: "try_block K env c = after_fetch K env chain h c (tr0 @ [FetchContracts a])"
    using assms(1-4) by (rule try_block_reaches_fetch)
  have tr0: "tr0 = [] \<or> tr0 = [ConnectAsync]"
    using assms(2) by (rule resolve_account_calls)
  have "calls_of (try_block K env c) = tr0 @ [FetchContracts a]
      \<or> calls_of (try_block K env c) = tr0 @ [FetchContracts a, SwitchChainAsync base_id]"
    unfolding tb calls_of_def using assms(5)
    by (auto simp: after_fetch_def check_and_write_def Let_def
        split: option.splits sum.splits bool.splits)
  then have nowrite: "\<forall>cs. WriteContractsAsync cs \<notin> set (calls_of (handleSubmit K env c))"
    using tr0 by (auto simp: handleSubmit_keeps)
  have run: "handleSubmit K env c =
                  (Returned,
                   c\<lparr>chargeId := hydratedChargeId h,
                     errorMessage := GENERIC_ERROR_MESSAGE K,
                     lifecycleStatus :=
                       \<lparr>statusName = ERROR,
                        statusData = ErrorData UNEXPECTED_ERROR (NO_CONTRACTS_ERROR K)
                          (NO_CONTRACTS_ERROR K)\<rparr>\<rparr>,
                   tr0 @ [FetchContracts a]
                     @ (if chain = Some base_id then [] else [SwitchChainAsync base_id]))"
    if "error h = None" "chain = Some base_id \<or> switchChainAsync env base_id = Inr ()"
       "\<not> (insufficientBalance h \<and> priceInUSDC h \<noteq> None)"
    unfolding handleSubmit_def tb after_fetch_no_error[OF that(1,2)]
    using that(3) assms(5)
    by (auto simp: check_and_write_def updateLifecycleStatus_def setErrorMessage_def
        split: option.splits bool.splits)
  from nowrite run show ?thesis by blast
qed

text \<open>The theorem at hydration returning an empty list and nothing else amiss.\<close>

theorem no_contracts_error_witness:
  "fresh_attempt (initial_controller :: string controller)
   \<and> resolve_account (hydrating empty_hydration) = (Inr (Some ''0xabc'', Some base_id), [])
   \<and> fetchContracts (hydrating empty_hydration) ''0xabc'' = Inr empty_hydration
   \<and> contracts empty_hydration = Some []
   \<and> error empty_hydration = None
   \<and> \<not> insufficientBalance empty_hydration
   \<and> WriteContractsAsync [''approve'', ''transferTokenPreApproved'']
       \<notin> set (calls_of (handleSubmit example_constants (hydrating empty_hydration)
            (initial_controller :: string controller)))
   \<and> handleSubmit example_constants (hydrating empty_hydration)
        (initial_controller :: string controller)
      = (Returned,
         \<lparr>lifecycleStatus =
            \<lparr>statusName = ERROR,
             statusData = ErrorData UNEXPECTED_ERROR ''Contracts are not available''
               ''Contracts are not available''\<rparr>,
          chargeId = ''charge-1'',
          transactionId = [],
          errorMessage = ''Something went wrong. Please try again.''\<rparr>,
         [FetchContracts ''0xabc''])"
  using
    no_contracts_error[where c = "initial_controller :: string controller"
      and env = "hydrating empty_hydration" and a = "''0xabc''"
      and chain = "Some base_id" and ?tr0.0 = "[]" and h = empty_hydration
      and K = example_constants]
  by (simp add: handler_defs example_defs)

text \<open>
  The claim as stated fails in three ways. Hydration returns an empty list together with
  a balance too low for a price of 10: the balance check comes first (lines 211-223) and
  the code is \<^verbatim>\<open>INSUFFICIENT_BALANCE\<close>. Hydration returns no list together with an error:
  the code is \<^verbatim>\<open>UNEXPECTED_ERROR\<close>, but the message is the error's, not the fixed one.
  Hydration returns an empty list, the wallet is on chain 1 and the user declines the
  chain switch: the code is \<^verbatim>\<open>USER_REJECTED_ERROR\<close>.
\<close>

theorem no_contracts_other_error:
  "contracts (empty_hydration\<lparr>insufficientBalance := True\<rparr>) = Some []
   \<and> lifecycleStatus (state_of
        (handleSubmit example_constants
           (hydrating (empty_hydration\<lparr>insufficientBalance := True\<rparr>))
           (initial_controller :: string controller)))
      = \<lparr>statusName = ERROR,
         statusData = ErrorData INSUFFICIENT_BALANCE ''User has insufficient balance''
           ''You need at least 10 USDC to continue with payment''\<rparr>
   \<and> contracts failed_hydration = None
   \<and> lifecycleStatus (state_of
        (handleSubmit example_constants (hydrating failed_hydration)
           (initial_controller :: string controller)))
      = \<lparr>statusName = ERROR,
         statusData = ErrorData UNEXPECTED_ERROR ''Error'' ''Failed to fetch''\<rparr>
   \<and> NO_CONTRACTS_ERROR example_constants = ''Contracts are not available''
   \<and> contracts empty_hydration = Some []
   \<and> lifecycleStatus (state_of
        (handleSubmit example_constants (switch_declined (hydrating empty_hydration))
           (initial_controller :: string controller)))
      = \<lparr>statusName = ERROR,
         statusData = ErrorData USER_REJECTED_ERROR ''{code:4001}'' ''Request denied.''\<rparr>"
  by (simp add: handler_defs example_defs)

subsection \<open>Exceptions\<close>




subsection \<open>The receipt\<close>

text \<open>
  C6. Whenever the receipt-polling service yields a receipt, the controller goes to
  \<^verbatim>\<open>SUCCESS\<close> whatever its state was, and the status data holds the one-element receipt
  list with that receipt, the stored charge identifier, and the receipt URL
  \<^verbatim>\<open>https://commerce.coinbase.com/pay/{chargeId}/receipt\<close> of the stored charge
  identifier; the session fields are left as they were.
\<close>

theorem receipt_effect_success:
  "receipt_effect (Some r) c =
     c\<lparr>lifecycleStatus :=
         \<lparr>statusName = SUCCESS,
          statusData = SuccessData [r] (chargeId c)
            (''https://commerce.coinbase.com/pay/'' @ chargeId c @ ''/receipt'')\<rparr>\<rparr>"
  by (simp add: receipt_effect_def updateLifecycleStatus_def receipt_url_def)

subsection \<open>What escapes\<close>




subsection \<open>The pending echo\<close>

text \<open>
  C8, as amended. The pending echo is idempotent but not guarded: when the
  batch-submission service reports its operation as pending, the controller goes to
  \<^verbatim>\<open>PENDING\<close> from whatever status it is in, \<^verbatim>\<open>SUCCESS\<close> and \<^verbatim>\<open>ERROR\<close> included; a
  notification that arrives while the status is \<^verbatim>\<open>PENDING\<close> leaves it \<^verbatim>\<open>PENDING\<close>, and a
  repeated notification leaves the state as the first one left it.
\<close>

theorem pending_effect_idempotent:
  "statusName (lifecycleStatus (pending_effect Pending c)) = PENDING
   \<and> (statusName (lifecycleStatus c) = PENDING \<longrightarrow>
        statusName (lifecycleStatus (pending_effect status c)) = PENDING)
   \<and> pending_effect status (pending_effect status c) = pending_effect status c"
  by (simp add: pending_effect_def updateLifecycleStatus_def)

text \<open>
  The theorem at the state a submission and its pending echo lead to, with a second
  pending notification.
\<close>

theorem pending_effect_idempotent_witness:
  "statusName (lifecycleStatus
     (pending_effect Pending
        (state_of (handleSubmit example_constants example_env
           (initial_controller :: string controller))))) = PENDING
   \<and> statusName (lifecycleStatus
       (pending_effect Pending
          (pending_effect Pending
             (state_of (handleSubmit example_constants example_env
                (initial_controller :: string controller)))))) = PENDING
   \<and> pending_effect Pending
       (pending_effect Pending
          (state_of (handleSubmit example_constants example_env
             (initial_controller :: string controller))))
      = pending_effect Pending
          (state_of (handleSubmit example_constants example_env
             (initial_controller :: string controller)))"
  using
    pending_effect_idempotent[where status = Pending
      and c = "pending_effect Pending
          (state_of (handleSubmit example_constants example_env
             (initial_controller :: string controller)))"]
  by (simp add: handler_defs example_defs)

text \<open>
  The claim as stated fails: a receipt has taken the controller to \<^verbatim>\<open>SUCCESS\<close>, which is
  past \<^verbatim>\<open>PENDING\<close>; a pending notification takes it back to \<^verbatim>\<open>PENDING\<close>.
\<close>

theorem pending_effect_not_guarded:
  "statusName (lifecycleStatus
     (receipt_effect (Some ''receipt-1'') (initial_controller :: string controller))) = SUCCESS
   \<and> statusName (lifecycleStatus
       (pending_effect Pending
          (receipt_effect (Some ''receipt-1'') (initial_controller :: string controller))))
      = PENDING"
  by (simp add: handler_defs example_defs)

subsection \<open>Leaving \<^verbatim>\<open>SUCCESS\<close> and \<^verbatim>\<open>ERROR\<close>\<close>

text \<open>
  C9, as amended. The two asynchronous transitions do not look at the current status. A
  submission status other than pending, and an absent receipt, leave the state as it is;
  a receipt leads to \<^verbatim>\<open>SUCCESS\<close> from every status (so it keeps \<^verbatim>\<open>SUCCESS\<close>, and takes
  \<^verbatim>\<open>ERROR\<close> to \<^verbatim>\<open>SUCCESS\<close>); a pending notification leads to \<^verbatim>\<open>PENDING\<close> from every status,
  \<^verbatim>\<open>SUCCESS\<close> and \<^verbatim>\<open>ERROR\<close> included. \<^verbatim>\<open>handleSubmit\<close> itself leaves \<^verbatim>\<open>SUCCESS\<close> and
  \<^verbatim>\<open>ERROR\<close> / \<^verbatim>\<open>INSUFFICIENT_BALANCE\<close> as they are.
\<close>

theorem side_transitions_unguarded:
  "(status \<noteq> Pending \<longrightarrow> pending_effect status c = c)
   \<and> receipt_effect None c = c
   \<and> statusName (lifecycleStatus (receipt_effect (Some r) c)) = SUCCESS
   \<and> statusName (lifecycleStatus (pending_effect Pending c)) = PENDING
   \<and> (statusName (lifecycleStatus c) = SUCCESS
        \<or> statusName (lifecycleStatus c) = ERROR
           \<and> code_of (statusData (lifecycleStatus c)) = Some INSUFFICIENT_BALANCE
      \<longrightarrow> state_of (handleSubmit K env c) = c)"
  by (auto simp: pending_effect_def receipt_effect_def updateLifecycleStatus_def
      handleSubmit_def try_block_def state_of_def)

text \<open>
  The theorem at the state a successful submission and its receipt lead to, with the
  submission status \<^verbatim>\<open>success\<close>.
\<close>

theorem side_transitions_unguarded_witness:
  "Success \<noteq> Pending
   \<and> statusName (lifecycleStatus
       (receipt_effect (Some ''receipt-1'')
          (state_of (handleSubmit example_constants example_env initial_controller))))
      = SUCCESS
   \<and> pending_effect Success
       (receipt_effect (Some ''receipt-1'')
          (state_of (handleSubmit example_constants example_env initial_controller)))
      = receipt_effect (Some ''receipt-1'')
          (state_of (handleSubmit example_constants example_env initial_controller))
   \<and> state_of (handleSubmit example_constants example_env
       (receipt_effect (Some ''receipt-1'')
          (state_of (handleSubmit example_constants example_env initial_controller))))
      = receipt_effect (Some ''receipt-1'')
          (state_of (handleSubmit example_constants example_env initial_controller))"
  using
    side_transitions_unguarded[where status = Success and K = example_constants
      and env = example_env
      and c = "receipt_effect (Some ''receipt-1'')
          (state_of (handleSubmit example_constants example_env initial_controller))"]
  by (simp add: handler_defs example_defs)

text \<open>
  The claim as stated fails. A submission succeeds, its pending echo and its receipt
  arrive, and the status is \<^verbatim>\<open>SUCCESS\<close>; a further pending notification (an attempt begun
  before the receipt reaching its submission) reverts it to \<^verbatim>\<open>PENDING\<close>. And after a
  submission, a second attempt, begun while \<^verbatim>\<open>PENDING\<close>, ends in \<^verbatim>\<open>ERROR\<close>; the receipt of
  the first then takes \<^verbatim>\<open>ERROR\<close> to \<^verbatim>\<open>SUCCESS\<close> with no further \<^verbatim>\<open>handleSubmit\<close>.
\<close>

theorem side_transitions_revert:
  "lifecycleStatus
     (receipt_effect (Some ''receipt-1'')
        (pending_effect Pending
           (state_of (handleSubmit example_constants example_env initial_controller))))
     = \<lparr>statusName = SUCCESS,
        statusData = SuccessData [''receipt-1''] ''charge-1''
          ''https://commerce.coinbase.com/pay/charge-1/receipt''\<rparr>
   \<and> statusName (lifecycleStatus
       (pending_effect Pending
          (receipt_effect (Some ''receipt-1'')
             (pending_effect Pending
                (state_of (handleSubmit example_constants example_env initial_controller))))))
      = PENDING
   \<and> statusName (lifecycleStatus
       (state_of (handleSubmit example_constants (hydrating failed_hydration)
          (pending_effect Pending
             (state_of (handleSubmit example_constants example_env initial_controller))))))
      = ERROR
   \<and> statusName (lifecycleStatus
       (receipt_effect (Some ''receipt-1'')
          (state_of (handleSubmit example_constants (hydrating failed_hydration)
             (pending_effect Pending
                (state_of (handleSubmit example_constants example_env initial_controller)))))))
      = SUCCESS"
  by (simp add: handler_defs example_defs)

subsection \<open>A balance too low with no price\<close>

text \<open>
  C10, as amended. In a fresh attempt that reaches hydration, when hydration reports no
  error, \<^verbatim>\<open>insufficientBalance\<close> and no price, and the chain switch (where the connected
  chain is not Base) completes, the call does not end in \<^verbatim>\<open>ERROR\<close> /
  \<^verbatim>\<open>INSUFFICIENT_BALANCE\<close>, whatever the contracts list: the attempt passes the balance
  check and goes on to the contracts check. There an empty or absent list gives the
  no-contracts error, and a list that is not empty is submitted to the batch-submission
  service, as the last call, despite the reported balance; when the submission is
  accepted the status is left as it was and the submission identifier is stored.
\<close>

theorem submits_without_price:
  assumes "fresh_attempt c"
    and "resolve_account env = (Inr (Some a, chain), tr0)"
    and "a \<noteq> []"
    and "fetchContracts env a = Inr h"
    and "error h = None"
    and "chain = Some base_id \<or> switchChainAsync env base_id = Inr ()"
    and "insufficientBalance h"
    and "priceInUSDC h = None"
  shows "\<not> (statusName (lifecycleStatus (state_of (handleSubmit K env c))) = ERROR
              \<and> code_of (statusData (lifecycleStatus (state_of (handleSubmit K env c))))
                  = Some INSUFFICIENT_BALANCE)
         \<and> (contracts h = None \<or> contracts h = Some [] \<longrightarrow>
               handleSubmit K env c =
                 (Returned,
                  c\<lparr>chargeId := hydratedChargeId h,
                    errorMessage := GENERIC_ERROR_MESSAGE K,
                    lifecycleStatus :=
                      \<lparr>statusName = ERROR,
                       statusData = ErrorData UNEXPECTED_ERROR (NO_CONTRACTS_ERROR K)
                         (NO_CONTRACTS_ERROR K)\<rparr>\<rparr>,
                  tr0 @ [FetchContracts a]
                    @ (if chain = Some base_id then [] else [SwitchChainAsync base_id])))
         \<and> (\<forall>x xs. contracts h = Some (x # xs) \<longrightarrow>
               calls_of (handleSubmit K env c) =
                 tr0 @ [FetchContracts a]
                   @ (if chain = Some base_id then [] else [SwitchChainAsync base_id])
                   @ [WriteContractsAsync (x # xs)]
               \<and> (\<forall>tid. writeContractsAsync env (x # xs) = Inr tid \<longrightarrow>
                     handleSubmit K env c =
                       (Returned,
                        c\<lparr>chargeId := hydratedChargeId h, transactionId := tid\<rparr>,
                        tr0 @ [FetchContracts a]
                          @ (if chain = Some base_id then [] else [SwitchChainAsync base_id])
                          @ [WriteContractsAsync (x # xs)])))"
proof -
  let ?c1 = "c\<lparr>chargeId := hydratedChargeId h\<rparr>"
  let ?tr = "tr0 @ [FetchContracts a]
      @ (if chain = Some base_id then [] else [SwitchChainAsync base_id])"
  have tb: "try_block K env c = check_and_write K env h ?c1 ?tr"
    using assms(1-6) by (rule try_block_reaches_checks)
  have fresh1: "\<not> (statusName (lifecycleStatus ?c1) = ERROR
      \<and> code_of (statusData (lifecycleStatus ?c1)) = Some INSUFFICIENT_BALANCE)"
    using assms(1) by (simp add: fresh_attempt_def)
  have empty: "try_block K env c =
      (Completed,
       c\<lparr>chargeId := hydratedChargeId h,
         errorMessage := GENERIC_ERROR_MESSAGE K,
         lifecycleStatus :=
           \<lparr>statusName = ERROR,
            statusData = ErrorData UNEXPECTED_ERROR (NO_CONTRACTS_ERROR K)
              (NO_CONTRACTS_ERROR K)\<rparr>\<rparr>,
       ?tr)"
    if "contracts h = None \<or> contracts h = Some []"
    unfolding tb using that assms(7,8)
    by (auto simp: check_and_write_def updateLifecycleStatus_def setErrorMessage_def)
  have sent: "try_block K env c =
      (case writeContractsAsync env (x # xs) of
         Inl e \<Rightarrow> (Threw e, ?c1, ?tr @ [WriteContractsAsync (x # xs)])
       | Inr tid \<Rightarrow>
           (Completed, ?c1\<lparr>transactionId := tid\<rparr>, ?tr @ [WriteContractsAsync (x # xs)]))"
    if "contracts h = Some (x # xs)" for x xs
    unfolding tb using that assms(7,8)
    by (simp add: check_and_write_def setTransactionId_def split: sum.splits)
  have status: "\<not> (statusName (lifecycleStatus (state_of (handleSubmit K env c))) = ERROR
              \<and> code_of (statusData (lifecycleStatus (state_of (handleSubmit K env c))))
                  = Some INSUFFICIENT_BALANCE)"
  proof (cases "contracts h = None \<or> contracts h = Some []")
    case True
    then show ?thesis
      using handleSubmit_Completed[OF empty] by (simp add: state_of_def)
  next
    case False
    then obtain x xs where cs: "contracts h = Some (x # xs)"
      by (cases "contracts h") (auto simp: neq_Nil_conv)
    show ?thesis
    proof (cases "writeContractsAsync env (x # xs)")
      case (Inr tid)
      then show ?thesis
        using sent[OF cs] fresh1 by (simp add: handleSubmit_def state_of_def)
    next
      case (Inl e)
      then have "handleSubmit K env c
          = catch_block K e ?c1 (?tr @ [WriteContractsAsync (x # xs)])"
        using sent[OF cs] by (simp add: handleSubmit_def)
      then show ?thesis
        using catch_block_code[OF fresh1, of K e "?tr @ [WriteContractsAsync (x # xs)]"]
        by simp
    qed
  qed
  have submitted: "calls_of (handleSubmit K env c) = ?tr @ [WriteContractsAsync (x # xs)]
      \<and> (\<forall>tid. writeContractsAsync env (x # xs) = Inr tid \<longrightarrow>
            handleSubmit K env c =
              (Returned,
               c\<lparr>chargeId := hydratedChargeId h, transactionId := tid\<rparr>,
               ?tr @ [WriteContractsAsync (x # xs)]))"
    if cs: "contracts h = Some (x # xs)" for x xs
  proof (cases "writeContractsAsync env (x # xs)")
    case (Inr tid)
    then show ?thesis
      using sent[OF cs] by (simp add: handleSubmit_def calls_of_def)
  next
    case (Inl e)
    then show ?thesis
      using sent[OF cs] handleSubmit_keeps[of K env c] by (simp add: calls_of_def)
  qed
  from status empty submitted show ?thesis
    by (auto simp: handleSubmit_Completed)
qed

text \<open>
  The theorem at hydration reporting a balance too low and no price, the wallet on chain
  1 and the switch to Base completing: with two contracts, and with an empty list.
\<close>

theorem submits_without_price_witness:
  "fresh_attempt (initial_controller :: string controller)
   \<and> resolve_account ((hydrating unpriced_hydration)\<lparr>chainId := Some 1\<rparr>)
       = (Inr (Some ''0xabc'', Some 1), [])
   \<and> fetchContracts ((hydrating unpriced_hydration)\<lparr>chainId := Some 1\<rparr>) ''0xabc''
       = Inr unpriced_hydration
   \<and> error unpriced_hydration = None
   \<and> switchChainAsync ((hydrating unpriced_hydration)\<lparr>chainId := Some 1\<rparr>) base_id = Inr ()
   \<and> insufficientBalance unpriced_hydration
   \<and> priceInUSDC unpriced_hydration = None
   \<and> contracts unpriced_hydration = Some [''approve'', ''transferTokenPreApproved'']
   \<and> handleSubmit example_constants ((hydrating unpriced_hydration)\<lparr>chainId := Some 1\<rparr>)
        (initial_controller :: string controller)
      = (Returned,
         \<lparr>lifecycleStatus = \<lparr>statusName = INIT, statusData = NoData\<rparr>,
          chargeId = ''charge-1'',
          transactionId = ''tx-1'',
          errorMessage = []\<rparr>,
         [FetchContracts ''0xabc'', SwitchChainAsync 8453,
          WriteContractsAsync [''approve'', ''transferTokenPreApproved'']])
   \<and> insufficientBalance (unpriced_hydration\<lparr>contracts := Some []\<rparr>)
   \<and> priceInUSDC (unpriced_hydration\<lparr>contracts := Some []\<rparr>) = None
   \<and> handleSubmit example_constants
        ((hydrating (unpriced_hydration\<lparr>contracts := Some []\<rparr>))\<lparr>chainId := Some 1\<rparr>)
        (initial_controller :: string controller)
      = (Returned,
         \<lparr>lifecycleStatus =
            \<lparr>statusName = ERROR,
             statusData = ErrorData UNEXPECTED_ERROR ''Contracts are not available''
               ''Contracts are not available''\<rparr>,
          chargeId = ''charge-1'',
          transactionId = [],
          errorMessage = ''Something went wrong. Please try again.''\<rparr>,
         [FetchContracts ''0xabc'', SwitchChainAsync 8453])"
  using
    submits_without_price[where c = "initial_controller :: string controller"
      and env = "(hydrating unpriced_hydration)\<lparr>chainId := Some 1\<rparr>" and a = "''0xabc''"
      and chain = "Some 1" and ?tr0.0 = "[]" and h = unpriced_hydration
      and K = example_constants]
    submits_without_price[where c = "initial_controller :: string controller"
      and env = "(hydrating (unpriced_hydration\<lparr>contracts := Some []\<rparr>))\<lparr>chainId := Some 1\<rparr>"
      and a = "''0xabc''" and chain = "Some 1" and ?tr0.0 = "[]"
      and h = "unpriced_hydration\<lparr>contracts := Some []\<rparr>"
      and K = example_constants]
  by (simp add: handler_defs example_defs)

text \<open>
  The claim as stated fails: hydration reports a balance too low, no price and two
  contracts, the wallet is on chain 1, and the user declines the chain switch, which comes
  before both checks. The batch-submission service is not called. Nor is it when
  hydration reports an error beside them: the attempt ends at line 202.
\<close>

theorem no_submission_when_switch_declined:
  "fetchContracts (switch_declined (hydrating unpriced_hydration)) ''0xabc''
     = Inr unpriced_hydration
   \<and> insufficientBalance unpriced_hydration
   \<and> priceInUSDC unpriced_hydration = None
   \<and> contracts unpriced_hydration = Some [''approve'', ''transferTokenPreApproved'']
   \<and> calls_of (handleSubmit example_constants (switch_declined (hydrating unpriced_hydration))
        (initial_controller :: string controller))
      = [FetchContracts ''0xabc'', SwitchChainAsync 8453]
   \<and> statusName (lifecycleStatus (state_of
        (handleSubmit example_constants (switch_declined (hydrating unpriced_hydration))
           (initial_controller :: string controller)))) = ERROR
   \<and> insufficientBalance (unpriced_hydration\<lparr>error := error failed_hydration\<rparr>)
   \<and> priceInUSDC (unpriced_hydration\<lparr>error := error failed_hydration\<rparr>) = None
   \<and> contracts (unpriced_hydration\<lparr>error := error failed_hydration\<rparr>)
       = Some [''approve'', ''transferTokenPreApproved'']
   \<and> calls_of (handleSubmit example_constants
        (hydrating (unpriced_hydration\<lparr>error := error failed_hydration\<rparr>))
        (initial_controller :: string controller))
      = [FetchContracts ''0xabc'']"
  by (simp add: handler_defs example_defs)

end
